theory Spec2Isabelle
  imports Main
begin

section \<open>Data model of message.py\<close>

text \<open>
  A \<open>Medium\<close> (module medium.py) is an opaque handle on one photo, video or
  animation. The delivery code only calls \<open>get_url\<close> and \<open>telegramize\<close> on it.
\<close>

datatype medium = Medium string

text \<open>
  Modelled from the spec: \<open>Medium.get_url\<close> lives in medium.py, which is not part of
  the source at hand. The spec says that a media reference "resolves to a fetchable URL";
  the handle is taken to carry that URL.
\<close>

fun get_url :: "medium \<Rightarrow> string" where
  "get_url (Medium u) = u"

text \<open>
  The wire representation of one item of a media group (telegram.InputMedia...): the
  media itself, a caption and the formatting mode of the caption.
\<close>

record input_media =
  im_media :: string
  im_caption :: "string option"
  im_parse_mode :: "string option"

text \<open>
  Modelled from the spec: \<open>Medium.telegramize\<close> lives in medium.py, which is not part
  of the source at hand. The spec calls it the conversion of a media reference "to the
  transport's wire representation for a single group item" and says that the items other
  than the first "carry no caption": the conversion builds a new item from the URL, with
  neither caption nor formatting mode.
\<close>

definition telegramize :: "medium \<Rightarrow> input_media" where
  "telegramize m = \<lparr>im_media = get_url m, im_caption = None, im_parse_mode = None\<rparr>"

text \<open>
  The \<open>media\<close> attribute is \<open>Optional[Union[List[Medium], Tuple[Medium], Medium]]\<close>:
  nothing, one medium, or a sequence of media.
\<close>

datatype media = NoMedia | One medium | Many "medium list"

text \<open>\<open>chat_id: Union[str, int]\<close>.\<close>

datatype chat = ChatName string | ChatId int

text \<open>The class of a message object: the base class and its five subclasses.\<close>

datatype cls = Message | TextMsg | PhotoMsg | VideoMsg | AnimationMsg | MediaGroupMsg

text \<open>
  The attributes of a message object. \<open>no_retry\<close> is \<open>None\<close> while the object has no
  attribute of that name: the class does not define it and \<open>__init__\<close> does not assign
  it, so it exists only once a caller has assigned it.
\<close>

record message =
  cls :: cls
  msg_text :: "string option"
  media :: media
  parse_mode :: "string option"
  retries :: int
  no_retry :: "bool option"

text \<open>
  \<open>__init__(self, text=None, media=None, parse_mode='HTML')\<close>. The third argument is
  \<open>None\<close> when the caller leaves \<open>parse_mode\<close> out, and \<open>Some p\<close> when the caller
  passes \<open>p\<close> (which may itself be Python's \<open>None\<close>).
\<close>

definition Message_init ::
  "cls \<Rightarrow> string option \<Rightarrow> media \<Rightarrow> string option option \<Rightarrow> message" where
  "Message_init k t m pm =
     \<lparr>cls = k, msg_text = t, media = m,
      parse_mode = (case pm of None \<Rightarrow> Some ''HTML'' | Some p \<Rightarrow> p),
      retries = 0, no_retry = None\<rparr>"

section \<open>The transport, the lock and the observable effects\<close>

text \<open>The calls on \<open>env.bot\<close>, with their arguments in the order of the source.\<close>

datatype call =
    SendMessage chat "string option" "string option" bool
  | SendPhoto chat string "string option" "string option"
  | SendVideo chat string "string option" "string option"
  | SendAnimation chat string "string option" "string option"
  | SendMediaGroup chat "input_media list"

text \<open>
  The exceptions of telegram.error that a transport call raises: \<open>RetryAfter\<close> with its
  message and its \<open>retry_after\<close> (a number of whole seconds, never negative), \<open>BadRequest\<close>,
  \<open>NetworkError\<close> (the class and its subclasses other than \<open>BadRequest\<close>), and every
  other exception, which no handler of \<open>send\<close> catches.
\<close>

datatype tg_error =
    RetryAfter string nat
  | BadRequest string
  | NetworkError string
  | OtherError string

datatype exc = AttributeError | TypeError | IndexError | OverflowError | Telegram tg_error

text \<open>\<open>Message._lock.owner\<close> is \<open>WRITER\<close>, \<open>READER\<close> or \<open>None\<close>.\<close>

datatype lock_mode = WRITER | READER

text \<open>
  What one flow of control does that the outside can see, in the order it happens:
  warnings logged (plain, or with \<open>exc_info\<close>), sleeps, acquiring and releasing the shared
  lock in either mode, and calls of the transport.
\<close>

datatype event =
    Warning string
  | WarningExc string tg_error
  | Sleep nat
  | ReadAcquire
  | ReadRelease
  | WriteAcquire
  | WriteRelease
  | Transport call

text \<open>
  The state threaded through a send: the effects so far, and a counter of how many times
  \<open>send\<close> has been entered (kept only to measure the recursion).
\<close>

record world =
  trace :: "event list"
  entered :: nat

text \<open>
  The surroundings of a flow: \<open>bot n c\<close> is the answer of the transport to the call \<open>c\<close>
  made after \<open>n\<close> earlier calls (\<open>None\<close> when it returns), and \<open>owner n\<close> is the value
  read from \<open>Message._lock.owner\<close> after \<open>n\<close> calls. Other flows may hold the lock, so
  the value read is not a function of this flow's own effects.
\<close>

record env =
  bot :: "nat \<Rightarrow> call \<Rightarrow> tg_error option"
  owner :: "nat \<Rightarrow> lock_mode option"

fun calls_of :: "event list \<Rightarrow> call list" where
  "calls_of [] = []"
| "calls_of (Transport c # es) = c # calls_of es"
| "calls_of (e # es) = calls_of es"

definition attempts :: "world \<Rightarrow> nat" where
  "attempts w = length (calls_of (trace w))"

definition emit :: "event \<Rightarrow> world \<Rightarrow> world" where
  "emit e w = w\<lparr>trace := trace w @ [e]\<rparr>"

section \<open>The kinds of message: \<open>_send\<close>\<close>

text \<open>
  The arguments that the body of \<open>_send\<close> evaluates for its call on \<open>env.bot\<close>. The base
  class does nothing (\<open>pass\<close>): \<open>None\<close>. Evaluating \<open>self.media.get_url()\<close> on anything
  but a single medium raises AttributeError; mapping over a \<open>media\<close> that is not a sequence
  raises TypeError; \<open>media_list[0]\<close> on an empty list raises IndexError.
\<close>

fun request :: "message \<Rightarrow> chat \<Rightarrow> (exc + call) option" where
  "request u c =
     (case cls u of
        Message \<Rightarrow> None
      | TextMsg \<Rightarrow> Some (Inr (SendMessage c (msg_text u) (parse_mode u) True))
      | PhotoMsg \<Rightarrow>
          (case media u of
             One m \<Rightarrow> Some (Inr (SendPhoto c (get_url m) (msg_text u) (parse_mode u)))
           | _ \<Rightarrow> Some (Inl AttributeError))
      | VideoMsg \<Rightarrow>
          (case media u of
             One m \<Rightarrow> Some (Inr (SendVideo c (get_url m) (msg_text u) (parse_mode u)))
           | _ \<Rightarrow> Some (Inl AttributeError))
      | AnimationMsg \<Rightarrow>
          (case media u of
             One m \<Rightarrow> Some (Inr (SendAnimation c (get_url m) (msg_text u) (parse_mode u)))
           | _ \<Rightarrow> Some (Inl AttributeError))
      | MediaGroupMsg \<Rightarrow>
          (case media u of
             Many ms \<Rightarrow>
               (case map telegramize ms of
                  [] \<Rightarrow> Some (Inl IndexError)
                | x # xs \<Rightarrow>
                    Some (Inr (SendMediaGroup c
                      (x\<lparr>im_caption := msg_text u, im_parse_mode := parse_mode u\<rparr> # xs))))
           | _ \<Rightarrow> Some (Inl TypeError)))"

text \<open>
  \<open>@fasteners.lock.read_locked\<close>: the body runs between acquiring and releasing the
  shared lock in read mode, and the lock is released also when the body raises.
\<close>

definition read_locked :: "env \<Rightarrow> exc + call \<Rightarrow> world \<Rightarrow> (exc + unit) \<times> world" where
  "read_locked en rq w =
     (let w1 = emit ReadAcquire w in
      case rq of
        Inl e \<Rightarrow> (Inl e, emit ReadRelease w1)
      | Inr cl \<Rightarrow>
          (case bot en (attempts w1) cl of
             None \<Rightarrow> (Inr (), emit ReadRelease (emit (Transport cl) w1))
           | Some e \<Rightarrow> (Inl (Telegram e), emit ReadRelease (emit (Transport cl) w1))))"

text \<open>The method \<open>_send\<close> of the object's class.\<close>

definition send_impl :: "env \<Rightarrow> message \<Rightarrow> chat \<Rightarrow> world \<Rightarrow> (exc + unit) \<times> world" where
  "send_impl en u c w =
     (case request u c of
        None \<Rightarrow> (Inr (), w)
      | Some rq \<Rightarrow> read_locked en rq w)"

section \<open>\<open>Message.send\<close>\<close>

text \<open>
  The result is what the call raises (\<open>Inl\<close>) or that it returns (\<open>Inr\<close>), the object
  with its attributes as the call leaves them, and the world.
\<close>

function send :: "env \<Rightarrow> message \<Rightarrow> chat \<Rightarrow> world \<Rightarrow> (exc + unit) \<times> message \<times> world" where
  "send en u c w =
     (let w0 = w\<lparr>entered := entered w + 1\<rparr> in
      case no_retry u of
        None \<Rightarrow> (Inl AttributeError, u, w0)
      | Some nr \<Rightarrow>
          if nr \<and> retries u \<ge> 1 then
            (Inr (), u,
             emit (Warning ''Message dropped: this message was configured not to retry.'') w0)
          else if retries u \<ge> 1 then (Inr (), u, w0)
          else if retries u \<ge> 3 then
            (Inl OverflowError, u,
             emit (Warning ''Message dropped: retried for too many times.'') w0)
          else
            (case send_impl en u c w0 of
               (Inr _, w1) \<Rightarrow> (Inr (), u, w1)
             | (Inl (Telegram (RetryAfter msg ra)), w1) \<Rightarrow>
                 (let w2 = emit (Warning msg) w1;
                      u' = u\<lparr>retries := retries u + 1\<rparr>;
                      w3 = (if owner en (attempts w2) \<noteq> Some WRITER
                            then emit WriteRelease (emit (Sleep (ra + 1)) (emit WriteAcquire w2))
                            else w2)
                  in send en u' c w3)
             | (Inl (Telegram (BadRequest msg)), w1) \<Rightarrow>
                 if nr then
                   (Inr (), u,
                    emit (WarningExc
                      ''Something went wrong while sending a message. Please check:''
                      (BadRequest msg)) w1)
                 else (Inl (Telegram (BadRequest msg)), u, w1)
             | (Inl (Telegram (NetworkError msg)), w1) \<Rightarrow>
                 (let w2 = emit (Warning (''Network error('' @ msg @ ''). Retrying...'')) w1;
                      u' = u\<lparr>retries := retries u + 1\<rparr>;
                      w3 = emit (Sleep 1) w2
                  in send en u' c w3)
             | (Inl e, w1) \<Rightarrow> (Inl e, u, w1)))"
  by pat_completeness auto
termination
  by (relation "measure (\<lambda>(en, u, c, w). nat (1 - retries u))") auto


section \<open>Concrete inputs\<close>

text \<open>
  A text message as a caller makes it ready for sending without the no-retry policy: the
  constructor, then the assignment \<open>no_retry = False\<close>.
\<close>

definition scenario_unit :: message where
  "scenario_unit = (Message_init TextMsg (Some ''hi'') NoMedia None)\<lparr>no_retry := Some False\<rparr>"

text \<open>A photo message made ready for sending under the no-retry policy.\<close>

definition scenario_photo :: message where
  "scenario_photo =
     (Message_init PhotoMsg (Some ''cap'') (One (Medium ''http://example.org/a.jpg'')) None)
       \<lparr>no_retry := Some True\<rparr>"

text \<open>A media group of three items with a caption, as the constructor leaves it.\<close>

definition scenario_album :: message where
  "scenario_album =
     Message_init MediaGroupMsg (Some ''album'')
       (Many [Medium ''http://example.org/1.jpg'', Medium ''http://example.org/2.jpg'',
              Medium ''http://example.org/3.mp4'']) None"

definition scenario_chat :: chat where
  "scenario_chat = ChatId 1"

definition fresh_world :: world where
  "fresh_world = \<lparr>trace = [], entered = 0\<rparr>"

text \<open>Surroundings in which nobody else holds the lock and the transport always
  answers the same: with a network error, with success, with a rate limit of 5 seconds,
  with a rejection of the request.\<close>

definition network_down :: env where
  "network_down = \<lparr>bot = (\<lambda>n c. Some (NetworkError ''down'')), owner = (\<lambda>n. None)\<rparr>"

definition always_sent :: env where
  "always_sent = \<lparr>bot = (\<lambda>n c. None), owner = (\<lambda>n. None)\<rparr>"

definition flood :: env where
  "flood = \<lparr>bot = (\<lambda>n c. Some (RetryAfter ''Flood control exceeded'' 5)), owner = (\<lambda>n. None)\<rparr>"

definition rejecting :: env where
  "rejecting = \<lparr>bot = (\<lambda>n c. Some (BadRequest ''Chat not found'')), owner = (\<lambda>n. None)\<rparr>"

text \<open>Surroundings in which the transport always answers with a rate limit of 5 seconds
  while another flow holds the lock in write mode: this flow reads the owner as WRITER,
  as it does when the other flow took the write lock right after this flow's \<open>_send\<close>
  gave up its read lock.\<close>

definition flood_other_writer :: env where
  "flood_other_writer =
     \<lparr>bot = (\<lambda>n c. Some (RetryAfter ''Flood control exceeded'' 5)),
      owner = (\<lambda>n. Some WRITER)\<rparr>"

section \<open>Basic facts\<close>

declare send.simps [simp del]

lemma calls_of_append: "calls_of (xs @ ys) = calls_of xs @ calls_of ys"
  by (induction xs rule: calls_of.induct) auto

lemma trace_emit: "trace (emit e w) = trace w @ [e]"
  by (simp add: emit_def)

lemma entered_emit: "entered (emit e w) = entered w"
  by (simp add: emit_def)

lemma attempts_emit_transport: "attempts (emit (Transport cl) w) = Suc (attempts w)"
  by (simp add: attempts_def emit_def calls_of_append)

lemma attempts_emit_other: "calls_of [e] = [] \<Longrightarrow> attempts (emit e w) = attempts w"
  by (simp add: attempts_def emit_def calls_of_append)

lemma attempts_entered: "attempts (w\<lparr>entered := n\<rparr>) = attempts w"
  by (simp add: attempts_def)

lemma world_updates:
  "(w :: world)\<lparr>entered := n, trace := t\<rparr> = \<lparr>trace = t, entered = n\<rparr>"
  by simp

text \<open>A \<open>_send\<close> that reaches its transport call: the call is made under the read lock,
  and what the transport raises comes out of \<open>_send\<close>.\<close>

lemma send_impl_call:
  "request u c = Some (Inr cl) \<Longrightarrow>
   send_impl en u c w =
     (case bot en (attempts w) cl of None \<Rightarrow> Inr () | Some e \<Rightarrow> Inl (Telegram e),
      w\<lparr>trace := trace w @ [ReadAcquire, Transport cl, ReadRelease]\<rparr>)"
  by (simp add: send_impl_def read_locked_def emit_def attempts_def calls_of_append
      split: option.splits)

text \<open>A call that finds \<open>retries \<ge> 1\<close> stops in the guard.\<close>

lemma send_guard:
  "1 \<le> retries u \<Longrightarrow>
   send en u c w =
     (case no_retry u of
        None \<Rightarrow> (Inl AttributeError, u, w\<lparr>entered := entered w + 1\<rparr>)
      | Some nr \<Rightarrow>
          (Inr (), u,
           if nr
           then emit (Warning ''Message dropped: this message was configured not to retry.'')
                  (w\<lparr>entered := entered w + 1\<rparr>)
           else w\<lparr>entered := entered w + 1\<rparr>))"
  by (simp add: send.simps split: option.splits)

lemma send_guard_world:
  assumes "1 \<le> retries u"
  shows "entered (snd (snd (send en u c w))) = entered w + 1 \<and>
         attempts (snd (snd (send en u c w))) = attempts w \<and>
         calls_of (trace (snd (snd (send en u c w)))) = calls_of (trace w) \<and>
         fst (snd (send en u c w)) = u"
  using assms
  by (simp add: send_guard entered_emit emit_def calls_of_append attempts_def
      split: option.splits)

text \<open>\<open>_send\<close> calls the transport at most once and never calls \<open>send\<close>.\<close>

lemma send_impl_entered: "entered (snd (send_impl en u c w)) = entered w"
  by (simp add: send_impl_def read_locked_def Let_def entered_emit
      split: option.splits sum.splits)

lemma send_impl_attempts: "attempts (snd (send_impl en u c w)) \<le> Suc (attempts w)"
  by (simp add: send_impl_def read_locked_def Let_def attempts_emit_other
      attempts_emit_transport split: option.splits sum.splits)

text \<open>The recursion of \<open>send\<close> ends on every input: each re-invocation follows an
  increment of a counter that was below 1.\<close>

lemma send_dom_all: "send_dom (en, u, c, w)"
proof (induction "nat (1 - retries u)" arbitrary: u w rule: less_induct)
  case less
  show ?case
  proof (rule accpI)
    fix y
    assume "send_rel y (en, u, c, w)"
    then show "send_dom y"
      by cases (auto intro!: less)
  qed
qed

text \<open>From a counter that is not negative, \<open>send\<close> is entered at most twice and the
  transport is called at most once.\<close>

lemma send_depth_bound:
  assumes "0 \<le> retries u"
  shows "entered (snd (snd (send en u c w))) \<le> entered w + 2 \<and>
         attempts (snd (snd (send en u c w))) \<le> attempts w + 1"
proof (cases "1 \<le> retries u")
  case True
  then show ?thesis by (simp add: send_guard_world)
next
  case False
  obtain r w1 where si: "send_impl en u c (w\<lparr>entered := Suc (entered w)\<rparr>) = (r, w1)"
    by (cases "send_impl en u c (w\<lparr>entered := Suc (entered w)\<rparr>)")
  have e1: "entered w1 = Suc (entered w)"
    using send_impl_entered [of en u c "w\<lparr>entered := Suc (entered w)\<rparr>"] si by simp
  have a1: "attempts w1 \<le> Suc (attempts w)"
    using send_impl_attempts [of en u c "w\<lparr>entered := Suc (entered w)\<rparr>"] si
    by (simp add: attempts_entered)
  have again: "1 \<le> retries (u\<lparr>retries := retries u + 1\<rparr>)"
    using assms by simp
  show ?thesis
    apply (subst (1 2) send.simps)
    using False e1 a1
    apply (simp add: si Let_def send_guard_world [OF again] entered_emit attempts_emit_other
        attempts_entered split: option.splits sum.splits exc.splits tg_error.splits)
    done
qed

text \<open>\<open>send\<close> leaves a retry counter that is not negative as it is or adds 1 to it:
  a counter that starts at 0, as the constructor sets it, is never negative.\<close>

lemma send_retries_step:
  assumes "0 \<le> retries u"
  shows "retries (fst (snd (send en u c w))) = retries u \<or>
         retries (fst (snd (send en u c w))) = retries u + 1"
proof (cases "1 \<le> retries u")
  case True
  then show ?thesis by (simp add: send_guard_world)
next
  case False
  obtain r w1 where si: "send_impl en u c (w\<lparr>entered := Suc (entered w)\<rparr>) = (r, w1)"
    by (cases "send_impl en u c (w\<lparr>entered := Suc (entered w)\<rparr>)")
  have again: "1 \<le> retries (u\<lparr>retries := retries u + 1\<rparr>)"
    using assms by simp
  show ?thesis
    apply (subst (1 2) send.simps)
    using False
    apply (simp add: si Let_def send_guard_world [OF again]
        split: option.splits sum.splits exc.splits tg_error.splits)
    done
qed

text \<open>No call of \<open>send\<close> ever raises OverflowError: the branch that raises it stands
  behind the branch that returns for \<open>retries \<ge> 1\<close>.\<close>

lemma request_not_overflow: "request u c \<noteq> Some (Inl OverflowError)"
  by (simp split: cls.splits media.splits list.splits)

lemma send_impl_not_overflow: "fst (send_impl en u c w) \<noteq> Inl OverflowError"
proof (cases "request u c")
  case None
  then show ?thesis by (simp add: send_impl_def)
next
  case (Some rq)
  with request_not_overflow [of u c] have "rq \<noteq> Inl OverflowError" by simp
  with Some show ?thesis
    by (cases rq) (simp_all add: send_impl_def read_locked_def Let_def split: option.splits)
qed

declare request.simps [simp del]

lemma send_never_overflow: "fst (send en u c w) \<noteq> Inl OverflowError"
proof (induction en u c w rule: send.induct)
  case (1 en u c w)
  obtain r w1 where si: "send_impl en u c (w\<lparr>entered := entered w + 1\<rparr>) = (r, w1)"
    by (cases "send_impl en u c (w\<lparr>entered := entered w + 1\<rparr>)")
  with send_impl_not_overflow [of en u c "w\<lparr>entered := entered w + 1\<rparr>"]
  have r: "r \<noteq> Inl OverflowError" by simp
  show ?case
    apply (subst send.simps)
    using 1 si r
    apply (auto simp: Let_def split: option.splits sum.splits exc.splits tg_error.splits)
    done
qed

section \<open>The claims\<close>

text \<open>
  C1. The claim: a unit with \<open>no_retry = False\<close> is tried up to 3 times, and the third
  recoverable failure in a row raises OverflowError. The scenario of the spec, a text
  message on a network that fails every time: the transport is called once, the counter
  goes to 1, the re-invoked \<open>send\<close> returns in its guard, and the caller sees a normal
  return.
\<close>

theorem C1_network_down_one_attempt_no_error:
  "send network_down scenario_unit scenario_chat fresh_world =
     (Inr (), scenario_unit\<lparr>retries := 1\<rparr>,
      \<lparr>trace =
         [ReadAcquire,
          Transport (SendMessage scenario_chat (Some ''hi'') (Some ''HTML'') True),
          ReadRelease,
          Warning ''Network error(down). Retrying...'',
          Sleep 1],
       entered = 2\<rparr>)"
  by (subst send.simps)
     (simp add: send_guard request.simps scenario_unit_def Message_init_def network_down_def
        fresh_world_def send_impl_def read_locked_def emit_def attempts_def)

text \<open>
  C3. The claim: a unit is constructed with a no-retry flag fixed at construction, so that
  \<open>send\<close> on a freshly constructed unit can evaluate its guard on \<open>no_retry\<close>. The
  constructor takes no such flag and assigns no such attribute: on every freshly
  constructed object, of every class and with every content, \<open>send\<close> raises
  AttributeError when it reads \<open>self.no_retry\<close>, with no effect and no transport call.
\<close>

theorem C3_send_on_fresh_unit_raises:
  "no_retry (Message_init k t m pm) = None \<and>
   send en (Message_init k t m pm) c w =
     (Inl AttributeError, Message_init k t m pm, w\<lparr>entered := entered w + 1\<rparr>)"
  by (simp add: send.simps Message_init_def)




text \<open>
  C5. When the transport raises BadRequest, a unit with \<open>no_retry\<close> set logs a warning
  (with the exception attached) and \<open>send\<close> returns normally; a unit with \<open>no_retry\<close>
  not set lets the same exception reach the caller. In both cases the transport has been
  called exactly once and the object, with its retry counter, is as it was.
\<close>

theorem C5_bad_request_not_retried:
  assumes "no_retry u = Some nr" and "retries u < 1"
    and "request u c = Some (Inr cl)"
    and "bot en (attempts w) cl = Some (BadRequest msg)"
  shows "send en u c w =
           (if nr then Inr () else Inl (Telegram (BadRequest msg)),
            u,
            \<lparr>trace = trace w @ [ReadAcquire, Transport cl, ReadRelease] @
               (if nr
                then [WarningExc ''Something went wrong while sending a message. Please check:''
                        (BadRequest msg)]
                else []),
             entered = entered w + 1\<rparr>)"
  using assms
  by (subst send.simps) (simp add: send_impl_call attempts_entered emit_def)

theorem C5_bad_request_witness:
  "no_retry scenario_unit = Some False \<and> retries scenario_unit < 1 \<and>
   request scenario_unit scenario_chat =
     Some (Inr (SendMessage scenario_chat (Some ''hi'') (Some ''HTML'') True)) \<and>
   bot rejecting (attempts fresh_world)
     (SendMessage scenario_chat (Some ''hi'') (Some ''HTML'') True) =
     Some (BadRequest ''Chat not found'') \<and>
   send rejecting scenario_unit scenario_chat fresh_world =
     (Inl (Telegram (BadRequest ''Chat not found'')), scenario_unit,
      \<lparr>trace =
         [ReadAcquire,
          Transport (SendMessage scenario_chat (Some ''hi'') (Some ''HTML'') True),
          ReadRelease],
       entered = 1\<rparr>) \<and>
   send rejecting scenario_photo scenario_chat fresh_world =
     (Inr (), scenario_photo,
      \<lparr>trace =
         [ReadAcquire,
          Transport (SendPhoto scenario_chat ''http://example.org/a.jpg'' (Some ''cap'')
                      (Some ''HTML'')),
          ReadRelease,
          WarningExc ''Something went wrong while sending a message. Please check:''
            (BadRequest ''Chat not found'')],
       entered = 1\<rparr>)"
proof -
  have a1: "no_retry scenario_unit = Some False"
    by (simp add: scenario_unit_def)
  have a2: "retries scenario_unit < 1"
    by (simp add: scenario_unit_def Message_init_def)
  have a3: "request scenario_unit scenario_chat =
      Some (Inr (SendMessage scenario_chat (Some ''hi'') (Some ''HTML'') True))"
    by (simp add: request.simps scenario_unit_def Message_init_def)
  have a4: "bot rejecting (attempts fresh_world)
      (SendMessage scenario_chat (Some ''hi'') (Some ''HTML'') True) =
      Some (BadRequest ''Chat not found'')"
    by (simp add: rejecting_def)
  have b1: "no_retry scenario_photo = Some True"
    by (simp add: scenario_photo_def)
  have b2: "retries scenario_photo < 1"
    by (simp add: scenario_photo_def Message_init_def)
  have b3: "request scenario_photo scenario_chat =
      Some (Inr (SendPhoto scenario_chat ''http://example.org/a.jpg'' (Some ''cap'')
        (Some ''HTML'')))"
    by (simp add: request.simps scenario_photo_def Message_init_def)
  have b4: "bot rejecting (attempts fresh_world)
      (SendPhoto scenario_chat ''http://example.org/a.jpg'' (Some ''cap'') (Some ''HTML'')) =
      Some (BadRequest ''Chat not found'')"
    by (simp add: rejecting_def)
  from C5_bad_request_not_retried [OF a1 a2 a3 a4] C5_bad_request_not_retried [OF b1 b2 b3 b4]
    a1 a2 a3 a4
  show ?thesis
    by (simp add: fresh_world_def)
qed

text \<open>
  C6, as amended. When the transport raises RetryAfter with a message and a
  \<open>retry_after\<close>, \<open>send\<close> logs the message, adds exactly 1 to the retry counter and,
  unless it reads the lock's owner as WRITER (the lock is held in write mode, by whichever
  flow), takes the lock in write mode, sleeps \<open>retry_after + 1\<close> and releases the lock;
  only then does it call \<open>send\<close> again on the same unit. From a counter that is not
  negative the whole call is: one transport call, the warning, the cooldown if any, the
  re-invoked \<open>send\<close>, and a normal return with the counter one higher.
\<close>

theorem C6_retry_after_cooldown:
  assumes "no_retry u = Some nr" and "retries u < 1"
    and "request u c = Some (Inr cl)"
    and "bot en (attempts w) cl = Some (RetryAfter msg ra)"
  shows "send en u c w =
           send en (u\<lparr>retries := retries u + 1\<rparr>) c
             \<lparr>trace = trace w @ [ReadAcquire, Transport cl, ReadRelease, Warning msg] @
                (if owner en (attempts w + 1) = Some WRITER then []
                 else [WriteAcquire, Sleep (ra + 1), WriteRelease]),
              entered = entered w + 1\<rparr> \<and>
         (0 \<le> retries u \<longrightarrow>
          send en u c w =
            (Inr (), u\<lparr>retries := retries u + 1\<rparr>,
             \<lparr>trace = trace w @ [ReadAcquire, Transport cl, ReadRelease, Warning msg] @
                (if owner en (attempts w + 1) = Some WRITER then []
                 else [WriteAcquire, Sleep (ra + 1), WriteRelease]) @
                (if nr
                 then [Warning ''Message dropped: this message was configured not to retry.'']
                 else []),
              entered = entered w + 2\<rparr>))"
proof -
  have again: "send en u c w =
           send en (u\<lparr>retries := retries u + 1\<rparr>) c
             \<lparr>trace = trace w @ [ReadAcquire, Transport cl, ReadRelease, Warning msg] @
                (if owner en (attempts w + 1) = Some WRITER then []
                 else [WriteAcquire, Sleep (ra + 1), WriteRelease]),
              entered = entered w + 1\<rparr>"
    using assms
    by (subst send.simps)
       (simp add: send_impl_call attempts_entered emit_def attempts_def calls_of_append
          world_updates)
  have "send en u c w =
            (Inr (), u\<lparr>retries := retries u + 1\<rparr>,
             \<lparr>trace = trace w @ [ReadAcquire, Transport cl, ReadRelease, Warning msg] @
                (if owner en (attempts w + 1) = Some WRITER then []
                 else [WriteAcquire, Sleep (ra + 1), WriteRelease]) @
                (if nr
                 then [Warning ''Message dropped: this message was configured not to retry.'']
                 else []),
              entered = entered w + 2\<rparr>)"
    if "0 \<le> retries u"
  proof -
    from that have "1 \<le> retries (u\<lparr>retries := retries u + 1\<rparr>)" by simp
    then show ?thesis
      using assms(1) by (subst again) (simp add: send_guard emit_def)
  qed
  with again show ?thesis by blast
qed

theorem C6_retry_after_witness:
  "no_retry scenario_unit = Some False \<and> retries scenario_unit < 1 \<and>
   0 \<le> retries scenario_unit \<and>
   request scenario_unit scenario_chat =
     Some (Inr (SendMessage scenario_chat (Some ''hi'') (Some ''HTML'') True)) \<and>
   bot flood (attempts fresh_world)
     (SendMessage scenario_chat (Some ''hi'') (Some ''HTML'') True) =
     Some (RetryAfter ''Flood control exceeded'' 5) \<and>
   send flood scenario_unit scenario_chat fresh_world =
     (Inr (), scenario_unit\<lparr>retries := 1\<rparr>,
      \<lparr>trace =
         [ReadAcquire,
          Transport (SendMessage scenario_chat (Some ''hi'') (Some ''HTML'') True),
          ReadRelease,
          Warning ''Flood control exceeded'',
          WriteAcquire, Sleep 6, WriteRelease],
       entered = 2\<rparr>)"
proof -
  have a1: "no_retry scenario_unit = Some False"
    by (simp add: scenario_unit_def)
  have a2: "retries scenario_unit < 1"
    by (simp add: scenario_unit_def Message_init_def)
  have a3: "request scenario_unit scenario_chat =
      Some (Inr (SendMessage scenario_chat (Some ''hi'') (Some ''HTML'') True))"
    by (simp add: request.simps scenario_unit_def Message_init_def)
  have a4: "bot flood (attempts fresh_world)
      (SendMessage scenario_chat (Some ''hi'') (Some ''HTML'') True) =
      Some (RetryAfter ''Flood control exceeded'' 5)"
    by (simp add: flood_def)
  have a5: "0 \<le> retries scenario_unit"
    by (simp add: scenario_unit_def Message_init_def)
  have free: "owner flood (attempts fresh_world + 1) \<noteq> Some WRITER"
    by (simp add: flood_def)
  have r0: "retries scenario_unit = 0"
    by (simp add: scenario_unit_def Message_init_def)
  have w0: "trace fresh_world = []" "entered fresh_world = 0"
    by (simp_all add: fresh_world_def)
  from C6_retry_after_cooldown [OF a1 a2 a3 a4] a5
  have "send flood scenario_unit scenario_chat fresh_world =
     (Inr (), scenario_unit\<lparr>retries := retries scenario_unit + 1\<rparr>,
      \<lparr>trace = trace fresh_world @
         [ReadAcquire,
          Transport (SendMessage scenario_chat (Some ''hi'') (Some ''HTML'') True),
          ReadRelease,
          Warning ''Flood control exceeded''] @
         (if owner flood (attempts fresh_world + 1) = Some WRITER then []
          else [WriteAcquire, Sleep (5 + 1), WriteRelease]) @
         (if False
          then [Warning ''Message dropped: this message was configured not to retry.'']
          else []),
       entered = entered fresh_world + 2\<rparr>)"
    by blast
  with a1 a2 a3 a4 a5 free r0 w0 show ?thesis
    by simp
qed

text \<open>
  C6 as the spec states it fails when another flow holds the lock in write mode. The
  flow that sends has acquired nothing, so the lock is not held in exclusive mode by this
  flow; it reads the owner as WRITER all the same, takes no lock and does not sleep before
  it calls \<open>send\<close> again.
\<close>

theorem C6_other_writer_no_cooldown:
  "send flood_other_writer scenario_unit scenario_chat fresh_world =
     (Inr (), scenario_unit\<lparr>retries := 1\<rparr>,
      \<lparr>trace =
         [ReadAcquire,
          Transport (SendMessage scenario_chat (Some ''hi'') (Some ''HTML'') True),
          ReadRelease,
          Warning ''Flood control exceeded''],
       entered = 2\<rparr>)"
  by (subst send.simps)
     (simp add: send_guard request.simps scenario_unit_def Message_init_def
        flood_other_writer_def fresh_world_def send_impl_def read_locked_def emit_def
        attempts_def)

text \<open>
  C7. When the transport raises NetworkError, \<open>send\<close> logs a warning that carries the
  error's message, adds exactly 1 to the retry counter, sleeps 1 second and calls \<open>send\<close>
  again on the same unit. From a counter that is not negative the whole call is: one
  transport call, the warning, the sleep of 1, the re-invoked \<open>send\<close>, and a normal
  return with the counter one higher.
\<close>

theorem C7_network_error_retry:
  assumes "no_retry u = Some nr" and "retries u < 1"
    and "request u c = Some (Inr cl)"
    and "bot en (attempts w) cl = Some (NetworkError msg)"
  shows "send en u c w =
           send en (u\<lparr>retries := retries u + 1\<rparr>) c
             \<lparr>trace = trace w @
                [ReadAcquire, Transport cl, ReadRelease,
                 Warning (''Network error('' @ msg @ ''). Retrying...''), Sleep 1],
              entered = entered w + 1\<rparr> \<and>
         (0 \<le> retries u \<longrightarrow>
          send en u c w =
            (Inr (), u\<lparr>retries := retries u + 1\<rparr>,
             \<lparr>trace = trace w @
                [ReadAcquire, Transport cl, ReadRelease,
                 Warning (''Network error('' @ msg @ ''). Retrying...''), Sleep 1] @
                (if nr
                 then [Warning ''Message dropped: this message was configured not to retry.'']
                 else []),
              entered = entered w + 2\<rparr>))"
proof -
  have again: "send en u c w =
           send en (u\<lparr>retries := retries u + 1\<rparr>) c
             \<lparr>trace = trace w @
                [ReadAcquire, Transport cl, ReadRelease,
                 Warning (''Network error('' @ msg @ ''). Retrying...''), Sleep 1],
              entered = entered w + 1\<rparr>"
    using assms
    by (subst send.simps) (simp add: send_impl_call attempts_entered emit_def world_updates)
  have "send en u c w =
            (Inr (), u\<lparr>retries := retries u + 1\<rparr>,
             \<lparr>trace = trace w @
                [ReadAcquire, Transport cl, ReadRelease,
                 Warning (''Network error('' @ msg @ ''). Retrying...''), Sleep 1] @
                (if nr
                 then [Warning ''Message dropped: this message was configured not to retry.'']
                 else []),
              entered = entered w + 2\<rparr>)"
    if "0 \<le> retries u"
  proof -
    from that have "1 \<le> retries (u\<lparr>retries := retries u + 1\<rparr>)" by simp
    then show ?thesis
      using assms(1) by (subst again) (simp add: send_guard emit_def)
  qed
  with again show ?thesis by blast
qed

theorem C7_network_error_witness:
  "no_retry scenario_photo = Some True \<and> retries scenario_photo < 1 \<and>
   0 \<le> retries scenario_photo \<and>
   request scenario_photo scenario_chat =
     Some (Inr (SendPhoto scenario_chat ''http://example.org/a.jpg'' (Some ''cap'')
       (Some ''HTML''))) \<and>
   bot network_down (attempts fresh_world)
     (SendPhoto scenario_chat ''http://example.org/a.jpg'' (Some ''cap'') (Some ''HTML'')) =
     Some (NetworkError ''down'') \<and>
   send network_down scenario_photo scenario_chat fresh_world =
     (Inr (), scenario_photo\<lparr>retries := 1\<rparr>,
      \<lparr>trace =
         [ReadAcquire,
          Transport (SendPhoto scenario_chat ''http://example.org/a.jpg'' (Some ''cap'')
                      (Some ''HTML'')),
          ReadRelease,
          Warning ''Network error(down). Retrying...'',
          Sleep 1,
          Warning ''Message dropped: this message was configured not to retry.''],
       entered = 2\<rparr>)"
proof -
  have b1: "no_retry scenario_photo = Some True"
    by (simp add: scenario_photo_def)
  have b2: "retries scenario_photo < 1"
    by (simp add: scenario_photo_def Message_init_def)
  have b3: "request scenario_photo scenario_chat =
      Some (Inr (SendPhoto scenario_chat ''http://example.org/a.jpg'' (Some ''cap'')
        (Some ''HTML'')))"
    by (simp add: request.simps scenario_photo_def Message_init_def)
  have b4: "bot network_down (attempts fresh_world)
      (SendPhoto scenario_chat ''http://example.org/a.jpg'' (Some ''cap'') (Some ''HTML'')) =
      Some (NetworkError ''down'')"
    by (simp add: network_down_def)
  have b5: "0 \<le> retries scenario_photo"
    by (simp add: scenario_photo_def Message_init_def)
  have r0: "retries scenario_photo = 0"
    by (simp add: scenario_photo_def Message_init_def)
  have w0: "trace fresh_world = []" "entered fresh_world = 0"
    by (simp_all add: fresh_world_def)
  from C7_network_error_retry [OF b1 b2 b3 b4] b5
  have "send network_down scenario_photo scenario_chat fresh_world =
     (Inr (), scenario_photo\<lparr>retries := retries scenario_photo + 1\<rparr>,
      \<lparr>trace = trace fresh_world @
         [ReadAcquire,
          Transport (SendPhoto scenario_chat ''http://example.org/a.jpg'' (Some ''cap'')
                      (Some ''HTML'')),
          ReadRelease,
          Warning (''Network error('' @ ''down'' @ ''). Retrying...''), Sleep 1] @
         (if True
          then [Warning ''Message dropped: this message was configured not to retry.'']
          else []),
       entered = entered fresh_world + 2\<rparr>)"
    by blast
  with b1 b2 b3 b4 b5 r0 w0 show ?thesis
    by simp
qed

text \<open>
  C8. For a media group whose media sequence is not empty, the transport receives one
  item per medium, in the order of the sequence; the first item carries the unit's text as
  caption and the unit's formatting mode, and every other item carries neither.
\<close>

theorem C8_media_group_caption_on_first_only:
  assumes "cls u = MediaGroupMsg" and "media u = Many (m # ms)"
  shows "request u c =
           Some (Inr (SendMediaGroup c
             (\<lparr>im_media = get_url m, im_caption = msg_text u, im_parse_mode = parse_mode u\<rparr> #
              map (\<lambda>x. \<lparr>im_media = get_url x, im_caption = None, im_parse_mode = None\<rparr>) ms))) \<and>
         trace (snd (send_impl en u c w)) =
           trace w @
           [ReadAcquire,
            Transport (SendMediaGroup c
             (\<lparr>im_media = get_url m, im_caption = msg_text u, im_parse_mode = parse_mode u\<rparr> #
              map (\<lambda>x. \<lparr>im_media = get_url x, im_caption = None, im_parse_mode = None\<rparr>) ms)),
            ReadRelease]"
proof -
  have rq: "request u c =
           Some (Inr (SendMediaGroup c
             (\<lparr>im_media = get_url m, im_caption = msg_text u, im_parse_mode = parse_mode u\<rparr> #
              map (\<lambda>x. \<lparr>im_media = get_url x, im_caption = None, im_parse_mode = None\<rparr>) ms)))"
    using assms by (simp add: request.simps telegramize_def)
  show ?thesis
    by (simp add: rq send_impl_call)
qed

theorem C8_media_group_witness:
  "cls scenario_album = MediaGroupMsg \<and>
   media scenario_album =
     Many [Medium ''http://example.org/1.jpg'', Medium ''http://example.org/2.jpg'',
           Medium ''http://example.org/3.mp4''] \<and>
   trace (snd (send_impl always_sent scenario_album scenario_chat fresh_world)) =
     [ReadAcquire,
      Transport (SendMediaGroup scenario_chat
        [\<lparr>im_media = ''http://example.org/1.jpg'', im_caption = Some ''album'',
           im_parse_mode = Some ''HTML''\<rparr>,
         \<lparr>im_media = ''http://example.org/2.jpg'', im_caption = None, im_parse_mode = None\<rparr>,
         \<lparr>im_media = ''http://example.org/3.mp4'', im_caption = None, im_parse_mode = None\<rparr>]),
      ReadRelease]"
proof -
  have h1: "cls scenario_album = MediaGroupMsg"
    by (simp add: scenario_album_def Message_init_def)
  have h2: "media scenario_album =
      Many (Medium ''http://example.org/1.jpg'' #
            [Medium ''http://example.org/2.jpg'', Medium ''http://example.org/3.mp4''])"
    by (simp add: scenario_album_def Message_init_def)
  from C8_media_group_caption_on_first_only
         [OF h1 h2, of scenario_chat always_sent fresh_world] h1 h2
  show ?thesis
    by (simp add: scenario_album_def Message_init_def fresh_world_def)
qed

text \<open>
  C9. \<open>send\<close> terminates on every input. For a unit whose retry counter is not negative
  (it starts at 0 and is only ever incremented), \<open>send\<close> is entered at most twice, the
  call itself and one re-invocation, and the transport is called at most once; a call that
  finds the counter at 1 or more is entered once and makes no transport call.
\<close>

theorem C9_send_terminates_depth_one:
  "send_dom (en, u, c, w) \<and>
   (0 \<le> retries u \<longrightarrow>
      entered (snd (snd (send en u c w))) \<le> entered w + 2 \<and>
      attempts (snd (snd (send en u c w))) \<le> attempts w + 1) \<and>
   (1 \<le> retries u \<longrightarrow>
      entered (snd (snd (send en u c w))) = entered w + 1 \<and>
      attempts (snd (snd (send en u c w))) = attempts w)"
  using send_dom_all send_depth_bound send_guard_world by blast

theorem C9_send_terminates_witness:
  "0 \<le> retries scenario_unit \<and>
   send_dom (flood, scenario_unit, scenario_chat, fresh_world) \<and>
   entered (snd (snd (send flood scenario_unit scenario_chat fresh_world))) \<le> 2 \<and>
   attempts (snd (snd (send flood scenario_unit scenario_chat fresh_world))) \<le> 1 \<and>
   1 \<le> retries (scenario_unit\<lparr>retries := 1\<rparr>) \<and>
   entered (snd (snd
     (send flood (scenario_unit\<lparr>retries := 1\<rparr>) scenario_chat fresh_world))) = 1 \<and>
   attempts (snd (snd
     (send flood (scenario_unit\<lparr>retries := 1\<rparr>) scenario_chat fresh_world))) = 0"
proof -
  have h0: "0 \<le> retries scenario_unit"
    by (simp add: scenario_unit_def Message_init_def)
  have h1: "1 \<le> retries (scenario_unit\<lparr>retries := 1\<rparr>)"
    by simp
  have w0: "entered fresh_world = 0" "attempts fresh_world = 0"
    by (simp_all add: fresh_world_def attempts_def)
  from C9_send_terminates_depth_one [of flood scenario_unit scenario_chat fresh_world]
    C9_send_terminates_depth_one [of flood "scenario_unit\<lparr>retries := 1\<rparr>" scenario_chat
      fresh_world]
    h0 h1 w0
  show ?thesis
    by simp
qed

text \<open>
  C10. A unit constructed without a formatting mode has the formatting mode 'HTML', and
  the \<open>_send\<close> of every kind hands that value to its transport call: as the argument
  \<open>parse_mode\<close> for a text, a photo, a video and an animation, and on the first item for
  a media group.
\<close>

theorem C10_default_parse_mode_html:
  "parse_mode (Message_init k t m None) = Some ''HTML'' \<and>
   trace (snd (send_impl en (Message_init TextMsg t m None) c w)) =
     trace w @ [ReadAcquire, Transport (SendMessage c t (Some ''HTML'') True), ReadRelease] \<and>
   trace (snd (send_impl en (Message_init PhotoMsg t (One x) None) c w)) =
     trace w @ [ReadAcquire, Transport (SendPhoto c (get_url x) t (Some ''HTML'')), ReadRelease] \<and>
   trace (snd (send_impl en (Message_init VideoMsg t (One x) None) c w)) =
     trace w @ [ReadAcquire, Transport (SendVideo c (get_url x) t (Some ''HTML'')), ReadRelease] \<and>
   trace (snd (send_impl en (Message_init AnimationMsg t (One x) None) c w)) =
     trace w @
     [ReadAcquire, Transport (SendAnimation c (get_url x) t (Some ''HTML'')), ReadRelease] \<and>
   trace (snd (send_impl en (Message_init MediaGroupMsg t (Many (x # xs)) None) c w)) =
     trace w @
     [ReadAcquire,
      Transport (SendMediaGroup c
        ((telegramize x)\<lparr>im_caption := t, im_parse_mode := Some ''HTML''\<rparr> #
         map telegramize xs)),
      ReadRelease]"
  by (simp add: Message_init_def send_impl_call request.simps)

end
